theory Spec2Isabelle
  imports Complex_Main
begin

section \<open>The GrassAutomation class of main.js\<close>

text \<open>
  The class keeps its state in the fields of \<open>this\<close> (\<open>config\<close>, \<open>stats\<close>,
  \<open>rateLimiter\<close>, \<open>availableIps\<close>) and talks to three things outside itself: the
  wall clock (\<open>Date.now()\<close>, \<open>setTimeout\<close>), the HTTP transport (\<open>cloudscraper\<close>)
  and the file \<open>stats.json\<close>. The model passes the object state together with the state
  of this outside world in one record, and takes everything the outside world decides
  (how much time passes, what a request returns, whether a write succeeds) from an
  environment \<open>env\<close> that every theorem quantifies over.

  Conventions of the embedding:
  \<^item> times are milliseconds since the epoch, as \<open>int\<close>; counters are \<open>nat\<close>;
    JSON numbers are mathematical integers (no floating-point rounding);
  \<^item> a property that is \<open>undefined\<close> or \<open>null\<close> is \<open>None\<close>; the JavaScript truth test
    of a number is \<open>\<noteq> 0\<close>, of a string \<open>\<noteq> ''''\<close>;
  \<^item> \<open>await\<close> is sequential composition: one call runs to its end before the next;
  \<^item> \<open>this.log\<close> writes to the console and the log file only; it changes nothing of
    the modelled state and is taken not to raise, so it is left out.
\<close>

subsection \<open>Data\<close>

record config =
  deviceId :: string
  userId :: string
  extensionId :: string
  ipAddress :: string
  userAgent :: string

record stats =
  totalCheckins :: nat
  successfulCheckins :: nat
  failedCheckins :: nat
  lastCheckin :: "int option"
  totalPoints :: int
  uptimeHours :: int
  ipRotations :: nat

record rate_limiter =
  lastRequest :: int
  minInterval :: int
  requestsPerMinute :: int
  requestCount :: int
  minuteStart :: int

text \<open>An error caught from a request. The code reads \<open>error.response?.status\<close> and
  \<open>error.message\<close>; the transport puts the HTTP status of a rejected response in
  \<open>error.statusCode\<close> (and \<open>error.response.statusCode\<close>).\<close>

record js_error =
  err_status :: "int option"
  err_statusCode :: "int option"
  err_message :: string

text \<open>The error that \<open>cloudscraper\<close> raises, through \<open>request-promise\<close>, for a response with
  an HTTP error status: a \<open>StatusCodeError\<close> whose \<open>statusCode\<close> is the status and whose
  message is the status followed by the body. Its \<open>response\<close> is Node's incoming message,
  which has \<open>statusCode\<close> and no property \<open>status\<close>.\<close>

definition StatusCodeError :: "int \<Rightarrow> string \<Rightarrow> js_error" where
  "StatusCodeError code msg = \<lparr>err_status = None, err_statusCode = Some code, err_message = msg\<rparr>"

text \<open>The \<open>result.data\<close> of a response body, by the shape the callers read.\<close>

record user_profile =
  profile_totalPoints :: "int option"

record device_status =
  isConnected :: bool
  totalUptime :: "int option"

record ip_entry =
  entry_ipAddress :: string

datatype data = UserData user_profile | DeviceData device_status | IpList "ip_entry list"

record response =
  points :: "int option"
  result_data :: "data option"

text \<open>The payload of the placeholder check-in token (\<open>generateCheckinToken\<close>).\<close>

record token_payload =
  tp_browserId :: string
  tp_userId :: string
  tp_version :: string
  tp_extensionId :: string
  tp_userAgent :: string
  tp_deviceType :: string
  tp_iss :: string
  tp_sub :: string
  tp_aud :: "string list"
  tp_exp :: int
  tp_nbf :: int
  tp_iat :: int
  tp_jti :: int

datatype request =
    GET_retrieveUser
  | GET_retrieveDevice string string
  | GET_activeIps
  | POST_checkin string

text \<open>The file \<open>stats.json\<close>: absent, present but unreadable, or holding a text that
  \<open>JSON.parse\<close> either rejects or turns into a stats record.\<close>

datatype contents = Garbage | Json stats

datatype stats_file = Missing | Unreadable | Text contents

datatype write_outcome = Written | WriteFailed stats_file

text \<open>The environment. Each field answers one kind of call to the outside world, indexed
  by how many such calls were made before.\<close>

record env =
  elapsed :: "nat \<Rightarrow> nat"
    \<comment> \<open>milliseconds that have passed when the clock is read for the k-th time\<close>
  cloudscraper :: "nat \<Rightarrow> js_error + response option"
    \<comment> \<open>outcome of the k-th request: an error thrown, or the parsed body (if any)\<close>
  writeFileSync :: "nat \<Rightarrow> write_outcome"
    \<comment> \<open>outcome of the k-th write of stats.json\<close>
  btoa_json :: "token_payload \<Rightarrow> js_error + string"
    \<comment> \<open>\<open>btoa(JSON.stringify(payload))\<close>, which raises on text outside Latin-1\<close>

record automation =
  config :: config
  stats :: stats
  rateLimiter :: rate_limiter
  availableIps :: "string list option"
  clock :: int
  reads :: nat
  sent :: "request list"
  statsFile :: stats_file
  writes :: nat

subsection \<open>Clock and timer\<close>

definition Date_now :: "env \<Rightarrow> automation \<Rightarrow> int \<times> automation" where
  "Date_now e s =
     (let t = clock s + int (elapsed e (reads s))
      in (t, s\<lparr>clock := t, reads := Suc (reads s)\<rparr>))"

text \<open>\<open>setTimeout(resolve, ms)\<close>: Node runs the timer for \<open>ms\<close> milliseconds, and for 1
  when \<open>ms\<close> is below 1 or above \<open>2^31 - 1\<close>. The timer runs on the millisecond clock of
  the event loop, not on the one \<open>Date.now()\<close> reads, so a reading of \<open>Date.now()\<close> after
  the wake-up can be one millisecond short of the delay: \<open>sleep\<close> moves the clock by the
  delay less one. Whatever time passes beyond that is part of \<open>elapsed\<close> at the next
  clock read.\<close>

definition timer_delay :: "int \<Rightarrow> int" where
  "timer_delay ms = (if ms < 1 \<or> 2147483647 < ms then 1 else ms)"

definition sleep :: "int \<Rightarrow> automation \<Rightarrow> automation" where
  "sleep ms s = s\<lparr>clock := clock s + (timer_delay ms - 1)\<rparr>"

subsection \<open>Rate limiter\<close>

definition new_rateLimiter :: "int \<Rightarrow> rate_limiter" where
  "new_rateLimiter now =
     \<lparr>lastRequest = 0, minInterval = 30000, requestsPerMinute = 3,
      requestCount = 0, minuteStart = now\<rparr>"

definition waitForRateLimit :: "env \<Rightarrow> automation \<Rightarrow> automation" where
  "waitForRateLimit e s0 =
     (let (now, s1) = Date_now e s0;
          s2 = (if now - minuteStart (rateLimiter s1) > 60000
                then s1\<lparr>rateLimiter := (rateLimiter s1)\<lparr>requestCount := 0, minuteStart := now\<rparr>\<rparr>
                else s1);
          s3 = (if requestCount (rateLimiter s2) \<ge> requestsPerMinute (rateLimiter s2)
                then (let waitTime = 60000 - (now - minuteStart (rateLimiter s2));
                          (t, s') = Date_now e (sleep waitTime s2)
                      in s'\<lparr>rateLimiter := (rateLimiter s')\<lparr>requestCount := 0, minuteStart := t\<rparr>\<rparr>)
                else s2);
          timeSinceLast = now - lastRequest (rateLimiter s3);
          s4 = (if timeSinceLast < minInterval (rateLimiter s3)
                then sleep (minInterval (rateLimiter s3) - timeSinceLast) s3
                else s3);
          (t, s5) = Date_now e s4
      in s5\<lparr>rateLimiter := (rateLimiter s5)\<lparr>lastRequest := t,
                requestCount := requestCount (rateLimiter s5) + 1\<rparr>\<rparr>)"




subsection \<open>Stats file\<close>

definition zero_stats :: stats where
  "zero_stats =
     \<lparr>totalCheckins = 0, successfulCheckins = 0, failedCheckins = 0, lastCheckin = None,
      totalPoints = 0, uptimeHours = 0, ipRotations = 0\<rparr>"

definition existsSync :: "stats_file \<Rightarrow> bool" where
  "existsSync f = (f \<noteq> Missing)"

definition readFileSync :: "stats_file \<Rightarrow> js_error + contents" where
  "readFileSync f =
     (case f of
        Text c \<Rightarrow> Inr c
      | Unreadable \<Rightarrow> Inl \<lparr>err_status = None, err_statusCode = None, err_message = ''EACCES''\<rparr>
      | Missing \<Rightarrow> Inl \<lparr>err_status = None, err_statusCode = None, err_message = ''ENOENT''\<rparr>)"

definition JSON_parse :: "contents \<Rightarrow> js_error + stats" where
  "JSON_parse c =
     (case c of
        Json st \<Rightarrow> Inr st
      | Garbage \<Rightarrow> Inl \<lparr>err_status = None, err_statusCode = None,
                       err_message = ''Unexpected token''\<rparr>)"

text \<open>The \<open>try\<close> block of \<open>loadStats\<close>, then the function with its \<open>catch\<close>. The result is
  a sum so that an exception leaving \<open>loadStats\<close> would be a value \<open>Inl\<close>.\<close>

definition loadStats_try :: "automation \<Rightarrow> js_error + automation" where
  "loadStats_try s =
     (if existsSync (statsFile s)
      then (case readFileSync (statsFile s) of
              Inl err \<Rightarrow> Inl err
            | Inr txt \<Rightarrow>
                (case JSON_parse txt of
                   Inl err \<Rightarrow> Inl err
                 | Inr st \<Rightarrow> Inr (s\<lparr>stats := st\<rparr>)))
      else Inr (s\<lparr>stats := zero_stats\<rparr>))"

definition loadStats :: "automation \<Rightarrow> js_error + automation" where
  "loadStats s =
     (case loadStats_try s of
        Inr s' \<Rightarrow> Inr s'
      | Inl err \<Rightarrow> Inr (s\<lparr>stats := zero_stats\<rparr>))"

text \<open>\<open>saveStats\<close> catches a failed write and only logs it.\<close>

definition saveStats :: "env \<Rightarrow> automation \<Rightarrow> automation" where
  "saveStats e s =
     (case writeFileSync e (writes s) of
        Written \<Rightarrow> s\<lparr>statsFile := Text (Json (stats s)), writes := Suc (writes s)\<rparr>
      | WriteFailed f \<Rightarrow> s\<lparr>statsFile := f, writes := Suc (writes s)\<rparr>)"

subsection \<open>Requests\<close>

definition makeRequest ::
  "env \<Rightarrow> request \<Rightarrow> automation \<Rightarrow> (js_error + response option) \<times> automation" where
  "makeRequest e req s0 =
     (let s1 = waitForRateLimit e s0
      in (cloudscraper e (length (sent s1)), s1\<lparr>sent := sent s1 @ [req]\<rparr>))"

text \<open>The three readers return \<open>response.result?.data\<close>, and \<open>null\<close> on any exception:
  the request's own, or the \<open>TypeError\<close> of reading \<open>result\<close> of an absent body.\<close>

definition getUserProfile :: "env \<Rightarrow> automation \<Rightarrow> data option \<times> automation" where
  "getUserProfile e s0 =
     (case makeRequest e GET_retrieveUser s0 of
        (Inl err, s1) \<Rightarrow> (None, s1)
      | (Inr None, s1) \<Rightarrow> (None, s1)
      | (Inr (Some r), s1) \<Rightarrow> (result_data r, s1))"

definition getDeviceStatus :: "env \<Rightarrow> automation \<Rightarrow> data option \<times> automation" where
  "getDeviceStatus e s0 =
     (case makeRequest e (GET_retrieveDevice (deviceId (config s0)) (ipAddress (config s0))) s0 of
        (Inl err, s1) \<Rightarrow> (None, s1)
      | (Inr None, s1) \<Rightarrow> (None, s1)
      | (Inr (Some r), s1) \<Rightarrow> (result_data r, s1))"

text \<open>\<open>getActiveIps\<close> also caches the addresses. Data that is not an array has no
  \<open>map\<close>: the \<open>TypeError\<close> is caught and the result is \<open>null\<close>.\<close>

definition getActiveIps :: "env \<Rightarrow> automation \<Rightarrow> ip_entry list option \<times> automation" where
  "getActiveIps e s0 =
     (case makeRequest e GET_activeIps s0 of
        (Inl err, s1) \<Rightarrow> (None, s1)
      | (Inr None, s1) \<Rightarrow> (None, s1)
      | (Inr (Some r), s1) \<Rightarrow>
          (case result_data r of
             None \<Rightarrow> (None, s1)
           | Some (IpList ips) \<Rightarrow> (Some ips, s1\<lparr>availableIps := Some (map entry_ipAddress ips)\<rparr>)
           | Some _ \<Rightarrow> (None, s1)))"

subsection \<open>IP rotation\<close>

text \<open>The choice made in \<open>rotateIp\<close>: the guard \<open>activeIps && activeIps.length > 1\<close>, the
  \<open>find\<close> of the first entry whose address is not the current one, and the truth test
  \<open>if (newIp)\<close>.\<close>

definition pickNewIp :: "ip_entry list option \<Rightarrow> string \<Rightarrow> string option" where
  "pickNewIp activeIps current =
     (case activeIps of
        None \<Rightarrow> None
      | Some ips \<Rightarrow>
          if length ips > 1
          then (case find (\<lambda>ip. entry_ipAddress ip \<noteq> current) ips of
                  None \<Rightarrow> None
                | Some ip \<Rightarrow> if entry_ipAddress ip \<noteq> [] then Some (entry_ipAddress ip) else None)
          else None)"

definition rotateIp :: "env \<Rightarrow> automation \<Rightarrow> bool \<times> automation" where
  "rotateIp e s0 =
     (let (activeIps, s1) = getActiveIps e s0
      in case pickNewIp activeIps (ipAddress (config s1)) of
           Some newIp \<Rightarrow>
             (True, s1\<lparr>config := (config s1)\<lparr>ipAddress := newIp\<rparr>,
                       stats := (stats s1)\<lparr>ipRotations := Suc (ipRotations (stats s1))\<rparr>\<rparr>)
         | None \<Rightarrow> (False, s1))"

subsection \<open>Check-in\<close>

definition generateCheckinToken :: "env \<Rightarrow> automation \<Rightarrow> (js_error + string) \<times> automation" where
  "generateCheckinToken e s0 =
     (let (t1, s1) = Date_now e s0;
          (t2, s2) = Date_now e s1;
          (t3, s3) = Date_now e s2;
          (t4, s4) = Date_now e s3;
          payload = \<lparr>tp_browserId = deviceId (config s4), tp_userId = userId (config s4),
                     tp_version = ''6.1.3'', tp_extensionId = extensionId (config s4),
                     tp_userAgent = userAgent (config s4), tp_deviceType = ''extension'',
                     tp_iss = ''director-server'', tp_sub = ''jeYkUsu31nAW'',
                     tp_aud = [ipAddress (config s4)], tp_exp = t1 div 1000 + 300,
                     tp_nbf = t2 div 1000, tp_iat = t3 div 1000, tp_jti = t4\<rparr>
      in case btoa_json e payload of
           Inl err \<Rightarrow> (Inl err, s4)
         | Inr b \<Rightarrow> (Inr (''eyJhbGciOiJSUzI1NiIsInR5cCI6IkpXVCJ9.'' @ b @ ''.signature''), s4))"

text \<open>\<open>error.message.includes('rate limit')\<close>.\<close>

fun str_includes :: "string \<Rightarrow> string \<Rightarrow> bool" where
  "str_includes [] p = (p = [])"
| "str_includes (c # cs) p = (take (length p) (c # cs) = p \<or> str_includes cs p)"

definition rate_limited :: "js_error \<Rightarrow> bool" where
  "rate_limited err = (err_status err = Some 429 \<or> str_includes (err_message err) ''rate limit'')"

text \<open>The \<open>try\<close> block of \<open>checkIn\<close>: \<open>Inl\<close> is the exception that reaches the \<open>catch\<close>.\<close>

definition checkIn_try :: "env \<Rightarrow> automation \<Rightarrow> (js_error + response option) \<times> automation" where
  "checkIn_try e s0 =
     (let s1 = s0\<lparr>stats := (stats s0)\<lparr>totalCheckins := Suc (totalCheckins (stats s0))\<rparr>\<rparr>;
          (tok, s2) = generateCheckinToken e s1
      in case tok of
           Inl err \<Rightarrow> (Inl err, s2)
         | Inr checkinToken \<Rightarrow>
             (case makeRequest e (POST_checkin checkinToken) s2 of
                (Inl err, s3) \<Rightarrow> (Inl err, s3)
              | (Inr response, s3) \<Rightarrow>
                  (let s4 = s3\<lparr>stats := (stats s3)\<lparr>successfulCheckins :=
                              Suc (successfulCheckins (stats s3))\<rparr>\<rparr>;
                       (now, s5) = Date_now e s4;
                       s6 = s5\<lparr>stats := (stats s5)\<lparr>lastCheckin := Some now\<rparr>\<rparr>;
                       s7 = (case response of
                               None \<Rightarrow> s6
                             | Some r \<Rightarrow>
                                 (case points r of
                                    None \<Rightarrow> s6
                                  | Some p \<Rightarrow>
                                      if p \<noteq> 0
                                      then s6\<lparr>stats := (stats s6)\<lparr>totalPoints :=
                                             totalPoints (stats s6) + p\<rparr>\<rparr>
                                      else s6))
                   in (Inr response, saveStats e s7))))"

definition checkIn_catch :: "env \<Rightarrow> js_error \<Rightarrow> automation \<Rightarrow> automation" where
  "checkIn_catch e err s0 =
     (let s1 = s0\<lparr>stats := (stats s0)\<lparr>failedCheckins := Suc (failedCheckins (stats s0))\<rparr>\<rparr>;
          s2 = saveStats e s1
      in if rate_limited err then snd (rotateIp e s2) else s2)"

definition checkIn :: "env \<Rightarrow> automation \<Rightarrow> response option \<times> automation" where
  "checkIn e s0 =
     (case checkIn_try e s0 of
        (Inr response, s1) \<Rightarrow> (response, s1)
      | (Inl err, s1) \<Rightarrow> (None, checkIn_catch e err s1))"

subsection \<open>The monitoring cycle\<close>

text \<open>Reading a property of \<open>result.data\<close> that its shape does not have gives
  \<open>undefined\<close>.\<close>

definition data_totalUptime :: "data \<Rightarrow> int option" where
  "data_totalUptime d = (case d of DeviceData st \<Rightarrow> totalUptime st | _ \<Rightarrow> None)"

definition data_totalPoints :: "data \<Rightarrow> int option" where
  "data_totalPoints d = (case d of UserData p \<Rightarrow> profile_totalPoints p | _ \<Rightarrow> None)"

text \<open>Step 1 of \<open>monitorAndMaintain\<close> (the disconnected branch only logs).\<close>

definition fetch_status :: "env \<Rightarrow> automation \<Rightarrow> automation" where
  "fetch_status e s0 =
     (let (deviceStatus, s1) = getDeviceStatus e s0
      in case deviceStatus of
           None \<Rightarrow> s1
         | Some d \<Rightarrow>
             (case data_totalUptime d of
                None \<Rightarrow> s1
              | Some u \<Rightarrow>
                  if u \<noteq> 0
                  then s1\<lparr>stats := (stats s1)\<lparr>uptimeHours := u div 3600000\<rparr>\<rparr>
                  else s1))"

text \<open>\<open>new Date(x).getTime()\<close> of a stored timestamp; \<open>new Date(null)\<close> is the epoch.\<close>

definition getTime :: "int option \<Rightarrow> int" where
  "getTime x = (case x of None \<Rightarrow> 0 | Some t \<Rightarrow> t)"

definition hoursSinceLastRotation :: "env \<Rightarrow> automation \<Rightarrow> rat \<times> automation" where
  "hoursSinceLastRotation e s0 =
     (if ipRotations (stats s0) > 0
      then (let (now, s1) = Date_now e s0
            in (of_int (now - getTime (lastCheckin (stats s1))) / 3600000, s1))
      else (24, s0))"

text \<open>Steps 2 and 3: refresh the active IPs, rotate when 12 hours have passed.\<close>

definition maintain_ip :: "env \<Rightarrow> automation \<Rightarrow> automation" where
  "maintain_ip e s0 =
     (let (activeIps, s1) = getActiveIps e s0;
          (hours, s2) = hoursSinceLastRotation e s1
      in if hours \<ge> 12 then snd (rotateIp e s2) else s2)"

text \<open>Step 5 up to the final save.\<close>

definition sync_profile :: "env \<Rightarrow> automation \<Rightarrow> automation" where
  "sync_profile e s0 =
     (let (userProfile, s1) = getUserProfile e s0
      in case userProfile of
           None \<Rightarrow> s1
         | Some d \<Rightarrow>
             (case data_totalPoints d of
                None \<Rightarrow> s1
              | Some p \<Rightarrow>
                  if p \<noteq> 0 then s1\<lparr>stats := (stats s1)\<lparr>totalPoints := p\<rparr>\<rparr> else s1))"

text \<open>The whole cycle. Every call in it catches its own exceptions, so the \<open>catch\<close> that
  wraps the body of \<open>monitorAndMaintain\<close> is never entered here.\<close>

definition monitorAndMaintain :: "env \<Rightarrow> automation \<Rightarrow> automation" where
  "monitorAndMaintain e s0 =
     (let s1 = fetch_status e s0;
          s2 = maintain_ip e s1;
          s3 = snd (checkIn e s2);
          s4 = sync_profile e s3
      in saveStats e s4)"

subsection \<open>Sample inputs\<close>

text \<open>A concrete object and environment on which the theorems below are instantiated:
  the clock starts at 1700000000000, every clock read finds 250 ms gone by, every write
  succeeds, and the k-th request gets the reply \<open>replies k\<close>.\<close>

definition sample_config :: "string \<Rightarrow> config" where
  "sample_config ip =
     \<lparr>deviceId = ''device-1'', userId = ''user-1'', extensionId = ''ext-1'',
      ipAddress = ip, userAgent = ''agent''\<rparr>"

definition sample_state :: "string \<Rightarrow> stats \<Rightarrow> automation" where
  "sample_state ip st =
     \<lparr>config = sample_config ip, stats = st, rateLimiter = new_rateLimiter 1700000000000,
      availableIps = None, clock = 1700000000000, reads = 0, sent = [],
      statsFile = Missing, writes = 0\<rparr>"

definition sample_env :: "(nat \<Rightarrow> js_error + response option) \<Rightarrow> env" where
  "sample_env replies =
     \<lparr>elapsed = (\<lambda>k. 250), cloudscraper = replies, writeFileSync = (\<lambda>k. Written),
      btoa_json = (\<lambda>p. Inr ''cGF5bG9hZA=='')\<rparr>"

definition no_body :: "nat \<Rightarrow> js_error + response option" where
  "no_body k = Inr None"

text \<open>The sample object with its clock and rate limiter set to given values.\<close>

definition limiter_at :: "int \<Rightarrow> nat \<Rightarrow> int \<Rightarrow> int \<Rightarrow> int \<Rightarrow> automation" where
  "limiter_at t r l c m =
     (sample_state ''10.0.0.1'' zero_stats)
       \<lparr>rateLimiter := \<lparr>lastRequest = l, minInterval = 30000, requestsPerMinute = 3,
                         requestCount = c, minuteStart = m\<rparr>,
        clock := t, reads := r\<rparr>"

definition replies_of :: "(js_error + response option) list \<Rightarrow> nat \<Rightarrow> js_error + response option" where
  "replies_of rs k = (if k < length rs then rs ! k else Inr None)"

definition with_data :: "data \<Rightarrow> js_error + response option" where
  "with_data d = Inr (Some \<lparr>points = None, result_data = Some d\<rparr>)"

definition with_points :: "int \<Rightarrow> js_error + response option" where
  "with_points p = Inr (Some \<lparr>points = Some p, result_data = None\<rparr>)"

definition http_429 :: "js_error + response option" where
  "http_429 = Inl (StatusCodeError 429 ''429 - Too Many Requests'')"

definition rate_limit_message :: "js_error + response option" where
  "rate_limit_message =
     Inl \<lparr>err_status = None, err_statusCode = None,
          err_message = ''You are being rate limited''\<rparr>"

definition timed_out :: "js_error + response option" where
  "timed_out = Inl \<lparr>err_status = None, err_statusCode = None, err_message = ''ETIMEDOUT''\<rparr>"

definition ip_list :: "string list \<Rightarrow> data" where
  "ip_list addrs = IpList (map (\<lambda>a. \<lparr>entry_ipAddress = a\<rparr>) addrs)"

definition stats_with :: "nat \<Rightarrow> nat \<Rightarrow> nat \<Rightarrow> int \<Rightarrow> int \<Rightarrow> nat \<Rightarrow> stats" where
  "stats_with n_total n_ok n_failed pts hours rotations =
     \<lparr>totalCheckins = n_total, successfulCheckins = n_ok, failedCheckins = n_failed,
      lastCheckin = None, totalPoints = pts, uptimeHours = hours, ipRotations = rotations\<rparr>"

text \<open>The scenarios used below.\<close>

definition state_A :: automation where
  "state_A = sample_state ''10.0.0.1'' (stats_with 5 3 2 100 5 0)"

definition state_rotated :: automation where
  "state_rotated = state_A\<lparr>stats := (stats state_A)\<lparr>ipRotations := 1,
                                      lastCheckin := Some 1699992800250\<rparr>\<rparr>"

definition env_429 :: env where
  "env_429 = sample_env (replies_of [http_429, with_data (ip_list [''10.0.0.1'', ''10.0.0.2''])])"

definition env_rate_limit_message :: env where
  "env_rate_limit_message =
     sample_env (replies_of [rate_limit_message,
                             with_data (ip_list [''10.0.0.1'', ''10.0.0.2''])])"

text \<open>An environment in which the fourth clock read, the one after the timer of the second
  call, finds no time gone by beyond the timer's own.\<close>

definition env_early_wake :: env where
  "env_early_wake =
     \<lparr>elapsed = (\<lambda>k. if k = 3 then 0 else 100), cloudscraper = no_body,
      writeFileSync = (\<lambda>k. Written), btoa_json = (\<lambda>p. Inr ''cGF5bG9hZA=='')\<rparr>"

definition env_timeout :: env where
  "env_timeout = sample_env (replies_of [timed_out])"

definition env_duplicates :: env where
  "env_duplicates = sample_env (replies_of [with_data (ip_list [''10.0.0.2'', ''10.0.0.2''])])"

definition env_two_ips :: env where
  "env_two_ips =
     sample_env (replies_of [with_data (ip_list [''10.0.0.1'', ''10.0.0.2'']),
                             with_data (ip_list [''10.0.0.1'', ''10.0.0.2''])])"

definition env_one_ip :: env where
  "env_one_ip = sample_env (replies_of [with_data (ip_list [''10.0.0.2''])])"

definition env_uptime :: "int \<Rightarrow> env" where
  "env_uptime u =
     sample_env (replies_of [with_data (DeviceData \<lparr>isConnected = True, totalUptime = Some u\<rparr>)])"

definition env_profile :: "int \<Rightarrow> env" where
  "env_profile p =
     sample_env (replies_of [with_data (UserData \<lparr>profile_totalPoints = Some p\<rparr>)])"

definition env_cycle :: "int \<Rightarrow> int \<Rightarrow> env" where
  "env_cycle q p =
     sample_env (replies_of
       [with_data (DeviceData \<lparr>isConnected = True, totalUptime = Some 7200000\<rparr>),
        with_data (ip_list [''10.0.0.1'', ''10.0.0.2'']),
        with_data (ip_list [''10.0.0.1'', ''10.0.0.2'']),
        with_points q,
        with_data (UserData \<lparr>profile_totalPoints = Some p\<rparr>)])"

section \<open>Properties\<close>

lemmas sample_defs = sample_state_def sample_config_def sample_env_def new_rateLimiter_def
  replies_of_def with_data_def with_points_def http_429_def timed_out_def ip_list_def
  StatusCodeError_def rate_limit_message_def env_rate_limit_message_def
  stats_with_def zero_stats_def no_body_def state_A_def env_429_def env_timeout_def
  env_duplicates_def env_two_ips_def env_one_ip_def env_uptime_def env_profile_def
  env_cycle_def

subsection \<open>What each operation leaves alone\<close>

lemma Date_now_frame:
  "config (snd (Date_now e s)) = config s"
  "stats (snd (Date_now e s)) = stats s"
  "rateLimiter (snd (Date_now e s)) = rateLimiter s"
  "availableIps (snd (Date_now e s)) = availableIps s"
  "sent (snd (Date_now e s)) = sent s"
  "statsFile (snd (Date_now e s)) = statsFile s"
  "writes (snd (Date_now e s)) = writes s"
  by (simp_all add: Date_now_def Let_def)

lemma waitForRateLimit_frame:
  "config (waitForRateLimit e s) = config s"
  "stats (waitForRateLimit e s) = stats s"
  "availableIps (waitForRateLimit e s) = availableIps s"
  "sent (waitForRateLimit e s) = sent s"
  "statsFile (waitForRateLimit e s) = statsFile s"
  "writes (waitForRateLimit e s) = writes s"
  by (simp_all add: waitForRateLimit_def Date_now_def sleep_def Let_def split: prod.splits)

lemma makeRequest_frame:
  "fst (makeRequest e req s) = cloudscraper e (length (sent s))"
  "config (snd (makeRequest e req s)) = config s"
  "stats (snd (makeRequest e req s)) = stats s"
  "availableIps (snd (makeRequest e req s)) = availableIps s"
  "sent (snd (makeRequest e req s)) = sent s @ [req]"
  "statsFile (snd (makeRequest e req s)) = statsFile s"
  "writes (snd (makeRequest e req s)) = writes s"
  by (simp_all add: makeRequest_def Let_def waitForRateLimit_frame)

lemma getUserProfile_frame:
  "config (snd (getUserProfile e s)) = config s"
  "stats (snd (getUserProfile e s)) = stats s"
  "sent (snd (getUserProfile e s)) = sent s @ [GET_retrieveUser]"
  "statsFile (snd (getUserProfile e s)) = statsFile s"
  "writes (snd (getUserProfile e s)) = writes s"
  using makeRequest_frame [of e GET_retrieveUser s]
  by (auto simp: getUserProfile_def split: prod.splits sum.splits option.splits)

lemma getDeviceStatus_frame:
  "config (snd (getDeviceStatus e s)) = config s"
  "stats (snd (getDeviceStatus e s)) = stats s"
  "sent (snd (getDeviceStatus e s))
     = sent s @ [GET_retrieveDevice (deviceId (config s)) (ipAddress (config s))]"
  "statsFile (snd (getDeviceStatus e s)) = statsFile s"
  "writes (snd (getDeviceStatus e s)) = writes s"
  using makeRequest_frame [of e "GET_retrieveDevice (deviceId (config s)) (ipAddress (config s))" s]
  by (auto simp: getDeviceStatus_def split: prod.splits sum.splits option.splits)

lemma getActiveIps_frame:
  "config (snd (getActiveIps e s)) = config s"
  "stats (snd (getActiveIps e s)) = stats s"
  "sent (snd (getActiveIps e s)) = sent s @ [GET_activeIps]"
  "statsFile (snd (getActiveIps e s)) = statsFile s"
  "writes (snd (getActiveIps e s)) = writes s"
  using makeRequest_frame [of e GET_activeIps s]
  by (auto simp: getActiveIps_def split: prod.splits sum.splits option.splits data.splits)

lemma saveStats_frame:
  "config (saveStats e s) = config s"
  "stats (saveStats e s) = stats s"
  "sent (saveStats e s) = sent s"
  "writes (saveStats e s) = Suc (writes s)"
  "statsFile (saveStats e s)
     = (case writeFileSync e (writes s) of Written \<Rightarrow> Text (Json (stats s)) | WriteFailed f \<Rightarrow> f)"
  by (simp_all add: saveStats_def split: write_outcome.splits)

lemma generateCheckinToken_frame:
  "config (snd (generateCheckinToken e s)) = config s"
  "stats (snd (generateCheckinToken e s)) = stats s"
  "sent (snd (generateCheckinToken e s)) = sent s"
  "statsFile (snd (generateCheckinToken e s)) = statsFile s"
  "writes (snd (generateCheckinToken e s)) = writes s"
  by (simp_all add: generateCheckinToken_def Date_now_def Let_def split: prod.splits sum.splits)

lemma rotateIp_frame:
  "sent (snd (rotateIp e s)) = sent s @ [GET_activeIps]"
  "statsFile (snd (rotateIp e s)) = statsFile s"
  "writes (snd (rotateIp e s)) = writes s"
  "totalCheckins (stats (snd (rotateIp e s))) = totalCheckins (stats s)"
  "successfulCheckins (stats (snd (rotateIp e s))) = successfulCheckins (stats s)"
  "failedCheckins (stats (snd (rotateIp e s))) = failedCheckins (stats s)"
  "totalPoints (stats (snd (rotateIp e s))) = totalPoints (stats s)"
  "uptimeHours (stats (snd (rotateIp e s))) = uptimeHours (stats s)"
  "lastCheckin (stats (snd (rotateIp e s))) = lastCheckin (stats s)"
  using getActiveIps_frame [of e s]
  by (auto simp: rotateIp_def split: prod.splits option.splits)

lemma generateCheckinToken_eqD:
  "generateCheckinToken e s = (r, s') \<Longrightarrow>
     config s' = config s \<and> stats s' = stats s \<and> sent s' = sent s
     \<and> statsFile s' = statsFile s \<and> writes s' = writes s"
  using generateCheckinToken_frame [of e s] by simp

lemma makeRequest_eqD:
  "makeRequest e req s = (r, s') \<Longrightarrow>
     r = cloudscraper e (length (sent s)) \<and> config s' = config s \<and> stats s' = stats s
     \<and> sent s' = sent s @ [req] \<and> statsFile s' = statsFile s \<and> writes s' = writes s"
  using makeRequest_frame [of e req s] by simp

lemma Date_now_eqD:
  "Date_now e s = (t, s') \<Longrightarrow>
     config s' = config s \<and> stats s' = stats s \<and> sent s' = sent s
     \<and> statsFile s' = statsFile s \<and> writes s' = writes s"
  using Date_now_frame [of e s] by simp

subsection \<open>Rate limiter\<close>






lemmas limiter_run_defs = waitForRateLimit_def Date_now_def sleep_def timer_delay_def
  limiter_at_def sample_state_def sample_env_def env_early_wake_def Let_def


text \<open>A call that finds the quota of the running minute used up waits for the end of the
  minute (8750 ms here), then for the rest of the 30 seconds.\<close>

lemma sample_quota_wait:
  "waitForRateLimit (sample_env no_body) (limiter_at 1700000061000 6 1700000061000 3 1700000010000)
     = limiter_at 1700000100248 9 1700000100248 1 1700000070249"
  by (simp add: limiter_run_defs)








subsection \<open>Check-in\<close>

lemma checkIn_try_stats:
  assumes "checkIn_try e s = (r, s1)"
  shows "totalCheckins (stats s1) = Suc (totalCheckins (stats s))
       \<and> failedCheckins (stats s1) = failedCheckins (stats s)
       \<and> successfulCheckins (stats s1)
           = (case r of Inl err \<Rightarrow> successfulCheckins (stats s)
                      | Inr b \<Rightarrow> Suc (successfulCheckins (stats s)))
       \<and> ipRotations (stats s1) = ipRotations (stats s)
       \<and> uptimeHours (stats s1) = uptimeHours (stats s)
       \<and> config s1 = config s"
  using assms
  by (auto simp: checkIn_try_def Let_def saveStats_frame
           split: prod.splits sum.splits option.splits if_splits
           dest!: generateCheckinToken_eqD makeRequest_eqD Date_now_eqD)

lemma checkIn_try_failure:
  assumes "checkIn_try e s = (Inl err, s1)"
  shows "stats s1 = (stats s)\<lparr>totalCheckins := Suc (totalCheckins (stats s))\<rparr>
       \<and> config s1 = config s \<and> statsFile s1 = statsFile s \<and> writes s1 = writes s"
  using assms
  by (auto simp: checkIn_try_def Let_def
           split: prod.splits sum.splits
           dest!: generateCheckinToken_eqD makeRequest_eqD)

lemma checkIn_try_success:
  assumes "checkIn_try e s = (Inr resp, s1)"
  shows "totalPoints (stats s1) = totalPoints (stats s)
           + (case resp of None \<Rightarrow> 0 | Some r \<Rightarrow> (case points r of None \<Rightarrow> 0 | Some p \<Rightarrow> p))
       \<and> writes s1 = Suc (writes s)"
  using assms
  by (auto simp: checkIn_try_def Let_def saveStats_frame
           split: prod.splits sum.splits option.splits if_splits
           dest!: generateCheckinToken_eqD makeRequest_eqD Date_now_eqD)

lemma checkIn_catch_stats:
  "totalCheckins (stats (checkIn_catch e err s)) = totalCheckins (stats s)"
  "successfulCheckins (stats (checkIn_catch e err s)) = successfulCheckins (stats s)"
  "failedCheckins (stats (checkIn_catch e err s)) = Suc (failedCheckins (stats s))"
  by (simp_all add: checkIn_catch_def Let_def rotateIp_frame saveStats_frame)

text \<open>
  Claim C2. If \<open>totalCheckins = successfulCheckins + failedCheckins\<close> holds before a call
  of \<open>checkIn\<close>, it holds after the call, whatever the token builder, the request, the write
  and a rotation triggered by the failure do.
\<close>

theorem checkIn_keeps_counter_invariant:
  assumes "totalCheckins (stats s) = successfulCheckins (stats s) + failedCheckins (stats s)"
  shows "totalCheckins (stats (snd (checkIn e s)))
           = successfulCheckins (stats (snd (checkIn e s)))
             + failedCheckins (stats (snd (checkIn e s)))"
proof -
  obtain r s1 where t: "checkIn_try e s = (r, s1)" by (cases "checkIn_try e s")
  note c = checkIn_try_stats [OF t]
  show ?thesis
  proof (cases r)
    case (Inl err)
    with t c assms show ?thesis by (simp add: checkIn_def checkIn_catch_stats)
  next
    case (Inr resp)
    with t c assms show ?thesis by (simp add: checkIn_def)
  qed
qed

theorem checkIn_keeps_counter_invariant_witness:
  "totalCheckins (stats state_A) = successfulCheckins (stats state_A) + failedCheckins (stats state_A)
   \<and> totalCheckins (stats (snd (checkIn env_429 state_A)))
       = successfulCheckins (stats (snd (checkIn env_429 state_A)))
         + failedCheckins (stats (snd (checkIn env_429 state_A)))"
  using checkIn_keeps_counter_invariant [of state_A env_429]
  by (simp add: state_A_def sample_state_def stats_with_def)

subsection \<open>IP rotation\<close>

lemma find_first_split:
  "find P xs = Some x \<Longrightarrow> \<exists>pre post. xs = pre @ x # post \<and> P x \<and> (\<forall>y\<in>set pre. \<not> P y)"
proof (induction xs)
  case Nil
  then show ?case by simp
next
  case (Cons a xs)
  show ?case
  proof (cases "P a")
    case True
    with Cons.prems have "a = x" by simp
    with True have "a # xs = [] @ x # xs \<and> P x \<and> (\<forall>y\<in>set []. \<not> P y)" by simp
    then show ?thesis by blast
  next
    case False
    with Cons obtain pre post where "xs = pre @ x # post" "P x" "\<forall>y\<in>set pre. \<not> P y" by auto
    with False have "a # xs = (a # pre) @ x # post \<and> P x \<and> (\<forall>y\<in>set (a # pre). \<not> P y)" by simp
    then show ?thesis by blast
  qed
qed

lemma first_split_unique:
  assumes "xs = pre @ x # post" "P x" "\<forall>y\<in>set pre. \<not> P y"
  shows "find P xs = Some x"
  using assms by (induction pre arbitrary: xs) auto

text \<open>\<open>pickNewIp\<close> yields an address exactly when the list has two entries or more and
  the first entry with another address than the current one has a non-empty address.\<close>

lemma pickNewIp_Some:
  "pickNewIp fetched cur = Some a \<longleftrightarrow>
     (\<exists>ips pre ip post. fetched = Some ips \<and> 1 < length ips \<and> ips = pre @ ip # post
        \<and> (\<forall>x\<in>set pre. entry_ipAddress x = cur) \<and> entry_ipAddress ip \<noteq> cur
        \<and> entry_ipAddress ip \<noteq> [] \<and> a = entry_ipAddress ip)"
  (is "?l \<longleftrightarrow> ?r")
proof
  assume ?l
  then obtain ips ip where f: "fetched = Some ips" "1 < length ips"
      "find (\<lambda>ip. entry_ipAddress ip \<noteq> cur) ips = Some ip" "entry_ipAddress ip \<noteq> []"
      "a = entry_ipAddress ip"
    by (auto simp: pickNewIp_def split: option.splits if_splits)
  from find_first_split [OF f(3)] f show ?r by auto
next
  assume ?r
  then obtain ips pre ip post where h: "fetched = Some ips" "1 < length ips" "ips = pre @ ip # post"
     "\<forall>x\<in>set pre. \<not> entry_ipAddress x \<noteq> cur" "entry_ipAddress ip \<noteq> cur"
     "entry_ipAddress ip \<noteq> []" "a = entry_ipAddress ip" by auto
  have "find (\<lambda>ip. entry_ipAddress ip \<noteq> cur) ips = Some ip"
    using first_split_unique [of ips pre ip post "\<lambda>ip. entry_ipAddress ip \<noteq> cur"] h by simp
  with h show ?l by (simp add: pickNewIp_def)
qed

lemma pickNewIp_None_cases:
  "fetched = None
   \<or> (\<exists>ips. fetched = Some ips \<and> (length ips \<le> 1 \<or> (\<forall>x\<in>set ips. entry_ipAddress x = cur)))
     \<Longrightarrow> pickNewIp fetched cur = None"
  by (auto simp: pickNewIp_def split: option.splits dest!: find_first_split)

lemma getActiveIps_fst:
  "fst (getActiveIps e s) =
     (case cloudscraper e (length (sent s)) of
        Inl err \<Rightarrow> None
      | Inr None \<Rightarrow> None
      | Inr (Some r) \<Rightarrow>
          (case result_data r of Some (IpList ips) \<Rightarrow> Some ips | _ \<Rightarrow> None))"
  using makeRequest_frame(1) [of e GET_activeIps s]
  by (auto simp: getActiveIps_def split: prod.splits sum.splits option.splits data.splits)

lemma rotateIp_unfold:
  assumes "getActiveIps e s = (fetched, s1)"
  shows "rotateIp e s =
     (case pickNewIp fetched (ipAddress (config s)) of
        Some newIp \<Rightarrow> (True, s1\<lparr>config := (config s)\<lparr>ipAddress := newIp\<rparr>,
                        stats := (stats s)\<lparr>ipRotations := Suc (ipRotations (stats s))\<rparr>\<rparr>)
      | None \<Rightarrow> (False, s1))"
  using assms getActiveIps_frame(1,2) [of e s] by (simp add: rotateIp_def split: option.splits)

lemma rotateIp_result:
  "fst (rotateIp e s) = (pickNewIp (fst (getActiveIps e s)) (ipAddress (config s)) \<noteq> None)"
  "ipAddress (config (snd (rotateIp e s)))
     = (case pickNewIp (fst (getActiveIps e s)) (ipAddress (config s)) of
          None \<Rightarrow> ipAddress (config s) | Some a \<Rightarrow> a)"
  "ipRotations (stats (snd (rotateIp e s)))
     = (case pickNewIp (fst (getActiveIps e s)) (ipAddress (config s)) of
          None \<Rightarrow> ipRotations (stats s) | Some a \<Rightarrow> Suc (ipRotations (stats s)))"
  using rotateIp_unfold [of e s "fst (getActiveIps e s)" "snd (getActiveIps e s)"]
        getActiveIps_frame(1,2) [of e s]
  by (auto split: option.splits)

text \<open>
  Claim C3 as stated fails: the list \<open>[10.0.0.2, 10.0.0.2]\<close> has one distinct address, so
  the claim wants no rotation, but with the current IP 10.0.0.1 the list has two entries
  and \<open>rotateIp\<close> rotates to 10.0.0.2.
\<close>

theorem rotateIp_duplicate_list_counterexample:
  "fst (getActiveIps env_duplicates state_A)
     = Some [\<lparr>entry_ipAddress = ''10.0.0.2''\<rparr>, \<lparr>entry_ipAddress = ''10.0.0.2''\<rparr>]
   \<and> card (set [''10.0.0.2'', ''10.0.0.2'']) < 2
   \<and> ipAddress (config state_A) = ''10.0.0.1''
   \<and> fst (rotateIp env_duplicates state_A)
   \<and> ipAddress (config (snd (rotateIp env_duplicates state_A))) = ''10.0.0.2''"
  by (simp add: rotateIp_result getActiveIps_fst pickNewIp_def sample_defs)

text \<open>
  Claim C3, amended. Let \<open>cur\<close> be the configured IP and let the fetch inside \<open>rotateIp\<close>
  return the list \<open>ips\<close>. If \<open>ips\<close> has at least two entries and its first entry whose
  address differs from \<open>cur\<close> has a non-empty address, \<open>rotateIp\<close> rotates to that address;
  whenever it rotates, the new address is that of the first entry differing from \<open>cur\<close>,
  so never \<open>cur\<close>; and it does not rotate when the fetch gave nothing, when \<open>ips\<close> has
  fewer than two entries, or when no entry's address differs from \<open>cur\<close>.
\<close>

theorem rotateIp_picks_first_other:
  "(\<forall>ips pre ip post.
       fst (getActiveIps e s) = Some ips \<longrightarrow> 1 < length ips \<longrightarrow> ips = pre @ ip # post \<longrightarrow>
       (\<forall>x\<in>set pre. entry_ipAddress x = ipAddress (config s)) \<longrightarrow>
       entry_ipAddress ip \<noteq> ipAddress (config s) \<longrightarrow> entry_ipAddress ip \<noteq> [] \<longrightarrow>
       fst (rotateIp e s) \<and> ipAddress (config (snd (rotateIp e s))) = entry_ipAddress ip)
   \<and> (fst (rotateIp e s) \<longrightarrow>
        (\<exists>ips pre ip post. fst (getActiveIps e s) = Some ips \<and> ips = pre @ ip # post
           \<and> (\<forall>x\<in>set pre. entry_ipAddress x = ipAddress (config s))
           \<and> entry_ipAddress ip \<noteq> ipAddress (config s)
           \<and> ipAddress (config (snd (rotateIp e s))) = entry_ipAddress ip))
   \<and> (fst (rotateIp e s) \<longrightarrow> ipAddress (config (snd (rotateIp e s))) \<noteq> ipAddress (config s))
   \<and> (\<not> fst (rotateIp e s) \<longrightarrow> ipAddress (config (snd (rotateIp e s))) = ipAddress (config s))
   \<and> (fst (getActiveIps e s) = None \<longrightarrow> \<not> fst (rotateIp e s))
   \<and> (\<forall>ips. fst (getActiveIps e s) = Some ips
             \<and> (length ips < 2 \<or> (\<forall>x\<in>set ips. entry_ipAddress x = ipAddress (config s)))
            \<longrightarrow> \<not> fst (rotateIp e s))"
  (is "?picks \<and> ?first \<and> ?other \<and> ?same \<and> ?failed \<and> ?few")
proof -
  let ?cur = "ipAddress (config s)"
  let ?got = "fst (getActiveIps e s)"
  have picks: ?picks
  proof (intro allI impI)
    fix ips pre ip post
    assume "?got = Some ips" "1 < length ips" "ips = pre @ ip # post"
       "\<forall>x\<in>set pre. entry_ipAddress x = ?cur"
       "entry_ipAddress ip \<noteq> ?cur" "entry_ipAddress ip \<noteq> []"
    then have "pickNewIp ?got ?cur = Some (entry_ipAddress ip)"
      using pickNewIp_Some [of ?got ?cur "entry_ipAddress ip"] by blast
    then show "fst (rotateIp e s) \<and> ipAddress (config (snd (rotateIp e s))) = entry_ipAddress ip"
      by (simp add: rotateIp_result)
  qed
  have first: ?first
  proof
    assume "fst (rotateIp e s)"
    then obtain a where a: "pickNewIp ?got ?cur = Some a"
      by (auto simp: rotateIp_result)
    then have new: "ipAddress (config (snd (rotateIp e s))) = a"
      by (simp add: rotateIp_result)
    from a pickNewIp_Some [of ?got ?cur a]
    obtain ips pre ip post where "?got = Some ips" "ips = pre @ ip # post"
        "\<forall>x\<in>set pre. entry_ipAddress x = ?cur" "entry_ipAddress ip \<noteq> ?cur"
        "a = entry_ipAddress ip"
      by auto
    with new show "\<exists>ips pre ip post. ?got = Some ips \<and> ips = pre @ ip # post
           \<and> (\<forall>x\<in>set pre. entry_ipAddress x = ?cur)
           \<and> entry_ipAddress ip \<noteq> ?cur
           \<and> ipAddress (config (snd (rotateIp e s))) = entry_ipAddress ip"
      by blast
  qed
  have other: ?other using first by auto
  have same: ?same by (auto simp: rotateIp_result)
  have failed: ?failed
    by (simp add: rotateIp_result pickNewIp_def)
  have few: ?few
  proof (intro allI impI)
    fix ips
    assume "?got = Some ips \<and> (length ips < 2 \<or> (\<forall>x\<in>set ips. entry_ipAddress x = ?cur))"
    then have "?got = None
       \<or> (\<exists>ips. ?got = Some ips \<and> (length ips \<le> 1 \<or> (\<forall>x\<in>set ips. entry_ipAddress x = ?cur)))"
      by auto
    from pickNewIp_None_cases [OF this] show "\<not> fst (rotateIp e s)"
      by (simp add: rotateIp_result)
  qed
  from picks first other same failed few show ?thesis by blast
qed


theorem rotateIp_picks_first_other_witness:
  "fst (getActiveIps env_two_ips state_A)
     = Some [\<lparr>entry_ipAddress = ''10.0.0.1''\<rparr>, \<lparr>entry_ipAddress = ''10.0.0.2''\<rparr>]
   \<and> ipAddress (config state_A) = ''10.0.0.1''
   \<and> fst (rotateIp env_two_ips state_A)
   \<and> ipAddress (config (snd (rotateIp env_two_ips state_A))) = ''10.0.0.2''
   \<and> fst (getActiveIps env_one_ip state_A) = Some [\<lparr>entry_ipAddress = ''10.0.0.2''\<rparr>]
   \<and> \<not> fst (rotateIp env_one_ip state_A)"
proof -
  let ?a = "\<lparr>entry_ipAddress = ''10.0.0.1''\<rparr>" and ?b = "\<lparr>entry_ipAddress = ''10.0.0.2''\<rparr>"
  have two: "fst (getActiveIps env_two_ips state_A) = Some [?a, ?b]"
    and one: "fst (getActiveIps env_one_ip state_A) = Some [?b]"
    and cur: "ipAddress (config state_A) = ''10.0.0.1''"
    by (simp_all add: getActiveIps_fst sample_defs)
  from rotateIp_picks_first_other [of env_two_ips state_A]
  have "fst (getActiveIps env_two_ips state_A) = Some [?a, ?b] \<longrightarrow> 1 < length [?a, ?b] \<longrightarrow>
        [?a, ?b] = [?a] @ ?b # [] \<longrightarrow>
        (\<forall>x\<in>set [?a]. entry_ipAddress x = ipAddress (config state_A)) \<longrightarrow>
        entry_ipAddress ?b \<noteq> ipAddress (config state_A) \<longrightarrow> entry_ipAddress ?b \<noteq> [] \<longrightarrow>
        fst (rotateIp env_two_ips state_A)
        \<and> ipAddress (config (snd (rotateIp env_two_ips state_A))) = entry_ipAddress ?b"
    by blast
  with two cur have "fst (rotateIp env_two_ips state_A)
        \<and> ipAddress (config (snd (rotateIp env_two_ips state_A))) = entry_ipAddress ?b"
    by simp
  moreover have "\<not> fst (rotateIp env_one_ip state_A)"
    using rotateIp_picks_first_other [of env_one_ip state_A] one by simp
  ultimately show ?thesis using two one cur by simp
qed

text \<open>
  Claim C9. When \<open>rotateIp\<close> returns false, the configuration and the stats are what they
  were; when it returns true, the configured IP has changed and \<open>ipRotations\<close> has grown
  by one; so \<open>ipRotations\<close> changes exactly when the configured IP does. It returns false
  in particular when the fetch gave nothing, when the list has at most one entry, and when
  no entry differs from the current IP.
\<close>

theorem rotateIp_all_or_nothing:
  "(\<not> fst (rotateIp e s) \<longrightarrow>
       config (snd (rotateIp e s)) = config s \<and> stats (snd (rotateIp e s)) = stats s)
   \<and> (fst (rotateIp e s) \<longrightarrow>
       ipAddress (config (snd (rotateIp e s))) \<noteq> ipAddress (config s)
       \<and> ipRotations (stats (snd (rotateIp e s))) = Suc (ipRotations (stats s)))
   \<and> (ipRotations (stats (snd (rotateIp e s))) \<noteq> ipRotations (stats s)
        \<longleftrightarrow> ipAddress (config (snd (rotateIp e s))) \<noteq> ipAddress (config s))
   \<and> ((case fst (getActiveIps e s) of
          None \<Rightarrow> True
        | Some ips \<Rightarrow> length ips \<le> 1 \<or> (\<forall>x\<in>set ips. entry_ipAddress x = ipAddress (config s)))
        \<longrightarrow> \<not> fst (rotateIp e s))"
proof -
  obtain fetched s1 where g: "getActiveIps e s = (fetched, s1)" by (cases "getActiveIps e s")
  have s1: "config s1 = config s" "stats s1 = stats s"
    using g getActiveIps_frame(1,2) [of e s] by simp_all
  show ?thesis
  proof (cases "pickNewIp fetched (ipAddress (config s))")
    case None
    then show ?thesis using rotateIp_unfold [OF g] s1 by simp
  next
    case (Some a)
    then have ne: "a \<noteq> ipAddress (config s)"
      using pickNewIp_Some [of fetched "ipAddress (config s)" a] by auto
    have "\<not> (case fetched of None \<Rightarrow> True
        | Some ips \<Rightarrow> length ips \<le> 1 \<or> (\<forall>x\<in>set ips. entry_ipAddress x = ipAddress (config s)))"
      using pickNewIp_None_cases [of fetched "ipAddress (config s)"] Some
      by (cases fetched) auto
    then show ?thesis using rotateIp_unfold [OF g] Some ne g by simp
  qed
qed

theorem rotateIp_all_or_nothing_witness:
  "fst (rotateIp env_two_ips state_A)
   \<and> ipAddress (config (snd (rotateIp env_two_ips state_A))) \<noteq> ipAddress (config state_A)
   \<and> ipRotations (stats (snd (rotateIp env_two_ips state_A))) = Suc (ipRotations (stats state_A))
   \<and> \<not> fst (rotateIp env_timeout state_A)
   \<and> config (snd (rotateIp env_timeout state_A)) = config state_A
   \<and> stats (snd (rotateIp env_timeout state_A)) = stats state_A"
proof -
  have yes: "fst (rotateIp env_two_ips state_A)"
    and no: "\<not> fst (rotateIp env_timeout state_A)"
    by (simp_all add: rotateIp_result getActiveIps_fst pickNewIp_def sample_defs)
  show ?thesis
    using rotateIp_all_or_nothing [of env_two_ips state_A]
          rotateIp_all_or_nothing [of env_timeout state_A] yes no
    by simp
qed

subsection \<open>The monitoring cycle\<close>

lemma getUserProfile_fst:
  "fst (getUserProfile e s) =
     (case cloudscraper e (length (sent s)) of
        Inl err \<Rightarrow> None
      | Inr None \<Rightarrow> None
      | Inr (Some r) \<Rightarrow> result_data r)"
  using makeRequest_frame(1) [of e GET_retrieveUser s]
  by (auto simp: getUserProfile_def split: prod.splits sum.splits option.splits)

lemma getDeviceStatus_fst:
  "fst (getDeviceStatus e s) =
     (case cloudscraper e (length (sent s)) of
        Inl err \<Rightarrow> None
      | Inr None \<Rightarrow> None
      | Inr (Some r) \<Rightarrow> result_data r)"
  using makeRequest_frame(1) [of e "GET_retrieveDevice (deviceId (config s)) (ipAddress (config s))" s]
  by (auto simp: getDeviceStatus_def split: prod.splits sum.splits option.splits)

lemma fetch_status_stats:
  "stats (fetch_status e s) =
     (case fst (getDeviceStatus e s) of
        None \<Rightarrow> stats s
      | Some d \<Rightarrow>
          (case data_totalUptime d of
             None \<Rightarrow> stats s
           | Some u \<Rightarrow> if u \<noteq> 0 then (stats s)\<lparr>uptimeHours := u div 3600000\<rparr> else stats s))"
  using getDeviceStatus_frame(2) [of e s]
  by (auto simp: fetch_status_def split: prod.splits option.splits)

lemma fetch_status_frame:
  "writes (fetch_status e s) = writes s"
  "config (fetch_status e s) = config s"
  "sent (fetch_status e s)
     = sent s @ [GET_retrieveDevice (deviceId (config s)) (ipAddress (config s))]"
  using getDeviceStatus_frame [of e s]
  by (auto simp: fetch_status_def split: prod.splits option.splits)

lemma sync_profile_stats:
  "stats (sync_profile e s) =
     (case fst (getUserProfile e s) of
        None \<Rightarrow> stats s
      | Some d \<Rightarrow>
          (case data_totalPoints d of
             None \<Rightarrow> stats s
           | Some p \<Rightarrow> if p \<noteq> 0 then (stats s)\<lparr>totalPoints := p\<rparr> else stats s))"
  using getUserProfile_frame(2) [of e s]
  by (auto simp: sync_profile_def split: prod.splits option.splits)

lemma sync_profile_frame:
  "writes (sync_profile e s) = writes s"
  "config (sync_profile e s) = config s"
  "sent (sync_profile e s) = sent s @ [GET_retrieveUser]"
  using getUserProfile_frame [of e s]
  by (auto simp: sync_profile_def split: prod.splits option.splits)

lemma hoursSinceLastRotation_frame:
  "config (snd (hoursSinceLastRotation e s)) = config s"
  "stats (snd (hoursSinceLastRotation e s)) = stats s"
  "sent (snd (hoursSinceLastRotation e s)) = sent s"
  "statsFile (snd (hoursSinceLastRotation e s)) = statsFile s"
  "writes (snd (hoursSinceLastRotation e s)) = writes s"
  by (simp_all add: hoursSinceLastRotation_def Date_now_def Let_def)

lemma hoursSinceLastRotation_fst:
  "fst (hoursSinceLastRotation e s)
     = (if 0 < ipRotations (stats s)
        then of_int (fst (Date_now e s) - getTime (lastCheckin (stats s))) / 3600000
        else 24)"
  by (simp add: hoursSinceLastRotation_def Date_now_def Let_def)

lemma maintain_ip_unfold:
  "maintain_ip e s =
     (if 12 \<le> fst (hoursSinceLastRotation e (snd (getActiveIps e s)))
      then snd (rotateIp e (snd (hoursSinceLastRotation e (snd (getActiveIps e s)))))
      else snd (hoursSinceLastRotation e (snd (getActiveIps e s))))"
  by (simp add: maintain_ip_def split: prod.splits)

lemma maintain_ip_frame:
  "sent (maintain_ip e s)
     = sent s @ GET_activeIps #
         (if 12 \<le> fst (hoursSinceLastRotation e (snd (getActiveIps e s)))
          then [GET_activeIps] else [])"
  "writes (maintain_ip e s) = writes s"
  "statsFile (maintain_ip e s) = statsFile s"
  "totalPoints (stats (maintain_ip e s)) = totalPoints (stats s)"
  "totalCheckins (stats (maintain_ip e s)) = totalCheckins (stats s)"
  by (simp_all add: maintain_ip_unfold rotateIp_frame hoursSinceLastRotation_frame
                    getActiveIps_frame)

text \<open>
  Claim C4. The hours value is \<open>(now - lastCheckin) / 3600000\<close> when \<open>ipRotations > 0\<close>
  (\<open>now\<close> is the clock read at that point; an absent \<open>lastCheckin\<close> counts as the epoch)
  and 24 when \<open>ipRotations = 0\<close>. Step MAINTAIN_IP, after its own fetch of the active
  IPs, runs \<open>rotateIp\<close> if the value is at least 12 and then sends a second request for
  the active IPs; otherwise it sends none and leaves configuration and stats alone. With
  \<open>ipRotations = 0\<close> the rotation is always attempted.
\<close>

theorem maintain_ip_rotation_rule:
  "fst (hoursSinceLastRotation e s)
     = (if 0 < ipRotations (stats s)
        then of_int (fst (Date_now e s) - getTime (lastCheckin (stats s))) / 3600000
        else 24)
   \<and> (12 \<le> fst (hoursSinceLastRotation e (snd (getActiveIps e s))) \<longrightarrow>
        maintain_ip e s
          = snd (rotateIp e (snd (hoursSinceLastRotation e (snd (getActiveIps e s)))))
        \<and> sent (maintain_ip e s) = sent s @ [GET_activeIps, GET_activeIps])
   \<and> (\<not> 12 \<le> fst (hoursSinceLastRotation e (snd (getActiveIps e s))) \<longrightarrow>
        maintain_ip e s = snd (hoursSinceLastRotation e (snd (getActiveIps e s)))
        \<and> sent (maintain_ip e s) = sent s @ [GET_activeIps]
        \<and> config (maintain_ip e s) = config s \<and> stats (maintain_ip e s) = stats s)
   \<and> (ipRotations (stats s) = 0 \<longrightarrow>
        maintain_ip e s = snd (rotateIp e (snd (getActiveIps e s)))
        \<and> sent (maintain_ip e s) = sent s @ [GET_activeIps, GET_activeIps])"
proof -
  let ?s1 = "snd (getActiveIps e s)"
  have fresh: "hoursSinceLastRotation e ?s1 = (24, ?s1)" if "ipRotations (stats s) = 0"
    using that getActiveIps_frame(2) [of e s] by (simp add: hoursSinceLastRotation_def)
  show ?thesis
    using hoursSinceLastRotation_fst [of e s] fresh
    by (auto simp: maintain_ip_unfold rotateIp_frame hoursSinceLastRotation_frame
                   getActiveIps_frame)
qed

theorem maintain_ip_rotation_rule_witness:
  "ipRotations (stats state_A) = 0
   \<and> fst (hoursSinceLastRotation env_two_ips state_A) = 24
   \<and> maintain_ip env_two_ips state_A = snd (rotateIp env_two_ips (snd (getActiveIps env_two_ips state_A)))
   \<and> sent (maintain_ip env_two_ips state_A) = [GET_activeIps, GET_activeIps]
   \<and> 0 < ipRotations (stats state_rotated)
   \<and> fst (hoursSinceLastRotation env_two_ips state_rotated) = 2"
proof -
  have fresh: "ipRotations (stats state_A) = 0" and none_sent: "sent state_A = []"
    by (simp_all add: sample_defs)
  have rotated: "0 < ipRotations (stats state_rotated)"
    and now: "fst (Date_now env_two_ips state_rotated) = 1700000000250"
    and last: "getTime (lastCheckin (stats state_rotated)) = 1699992800250"
    by (simp_all add: state_rotated_def Date_now_def getTime_def sample_defs)
  note rule_A = maintain_ip_rotation_rule [of env_two_ips state_A]
  from rule_A fresh have h: "fst (hoursSinceLastRotation env_two_ips state_A) = 24"
    by simp
  from rule_A fresh have m: "maintain_ip env_two_ips state_A
         = snd (rotateIp env_two_ips (snd (getActiveIps env_two_ips state_A)))"
    by blast
  from rule_A fresh
  have sn: "sent (maintain_ip env_two_ips state_A) = sent state_A @ [GET_activeIps, GET_activeIps]"
    by blast
  from sn none_sent have "sent (maintain_ip env_two_ips state_A) = [GET_activeIps, GET_activeIps]"
    by simp
  with h m have a: "fst (hoursSinceLastRotation env_two_ips state_A) = 24
     \<and> maintain_ip env_two_ips state_A
         = snd (rotateIp env_two_ips (snd (getActiveIps env_two_ips state_A)))
     \<and> sent (maintain_ip env_two_ips state_A) = [GET_activeIps, GET_activeIps]"
    by blast
  from maintain_ip_rotation_rule [of env_two_ips state_rotated] rotated now last
  have b: "fst (hoursSinceLastRotation env_two_ips state_rotated) = 2"
    by simp
  from a b fresh rotated show ?thesis by blast
qed

text \<open>
  Claim C8 as stated fails: a device status that carries the uptime 0 leaves \<open>uptimeHours\<close>
  at its old value 5 instead of setting it to \<open>0 div 3600000 = 0\<close>, since the guard
  \<open>if (deviceStatus.totalUptime)\<close> is a truth test.
\<close>

theorem fetch_status_zero_uptime_counterexample:
  "fst (getDeviceStatus (env_uptime 0) state_A)
     = Some (DeviceData \<lparr>isConnected = True, totalUptime = Some 0\<rparr>)
   \<and> uptimeHours (stats state_A) = 5
   \<and> uptimeHours (stats (fetch_status (env_uptime 0) state_A)) = 5
   \<and> uptimeHours (stats (fetch_status (env_uptime 0) state_A)) \<noteq> 0 div 3600000"
  by (simp add: fetch_status_stats getDeviceStatus_fst data_totalUptime_def sample_defs)

text \<open>
  Claim C8, amended. In step FETCH_STATUS, if the device status is present and carries a
  non-zero uptime \<open>u\<close>, then \<open>uptimeHours\<close> becomes \<open>u div 3600000\<close>; for
  \<open>u = 7200000\<close> that is 2.
\<close>

theorem fetch_status_uptime_hours:
  assumes "fst (getDeviceStatus e s) = Some d"
    and "data_totalUptime d = Some u"
    and "u \<noteq> 0"
  shows "uptimeHours (stats (fetch_status e s)) = u div 3600000
       \<and> (u = 7200000 \<longrightarrow> uptimeHours (stats (fetch_status e s)) = 2)"
  using assms by (simp add: fetch_status_stats)

theorem fetch_status_uptime_hours_witness:
  "fst (getDeviceStatus (env_uptime 7200000) state_A)
     = Some (DeviceData \<lparr>isConnected = True, totalUptime = Some 7200000\<rparr>)
   \<and> data_totalUptime (DeviceData \<lparr>isConnected = True, totalUptime = Some 7200000\<rparr>)
       = Some 7200000
   \<and> (7200000 :: int) \<noteq> 0
   \<and> uptimeHours (stats (fetch_status (env_uptime 7200000) state_A)) = 2"
proof -
  have d: "fst (getDeviceStatus (env_uptime 7200000) state_A)
     = Some (DeviceData \<lparr>isConnected = True, totalUptime = Some 7200000\<rparr>)"
    by (simp add: getDeviceStatus_fst sample_defs)
  have u: "data_totalUptime (DeviceData \<lparr>isConnected = True, totalUptime = Some 7200000\<rparr>)
       = Some 7200000"
    by (simp add: data_totalUptime_def)
  have n: "(7200000 :: int) \<noteq> 0" by simp
  from fetch_status_uptime_hours [OF d u n] d u show ?thesis by simp
qed

text \<open>
  Claim C10. In step SYNC_PROFILE, if no profile was fetched, or the profile has no point
  total, or its point total is 0, \<open>totalPoints\<close> keeps its value; \<open>totalPoints\<close> changes
  only to a non-zero total that the profile reports.
\<close>

theorem sync_profile_zero_keeps_points:
  "((case fst (getUserProfile e s) of
       None \<Rightarrow> True
     | Some d \<Rightarrow> data_totalPoints d = None \<or> data_totalPoints d = Some 0)
      \<longrightarrow> totalPoints (stats (sync_profile e s)) = totalPoints (stats s))
   \<and> (totalPoints (stats (sync_profile e s)) \<noteq> totalPoints (stats s) \<longrightarrow>
        (\<exists>d p. fst (getUserProfile e s) = Some d \<and> data_totalPoints d = Some p \<and> p \<noteq> 0
               \<and> totalPoints (stats (sync_profile e s)) = p))"
  by (auto simp: sync_profile_stats split: option.splits)

theorem sync_profile_zero_keeps_points_witness:
  "fst (getUserProfile (env_profile 0) state_A)
     = Some (UserData \<lparr>profile_totalPoints = Some 0\<rparr>)
   \<and> data_totalPoints (UserData \<lparr>profile_totalPoints = Some 0\<rparr>) = Some 0
   \<and> totalPoints (stats state_A) = 100
   \<and> totalPoints (stats (sync_profile (env_profile 0) state_A)) = 100
   \<and> fst (getUserProfile env_timeout state_A) = None
   \<and> totalPoints (stats (sync_profile env_timeout state_A)) = 100"
proof -
  have z: "fst (getUserProfile (env_profile 0) state_A)
     = Some (UserData \<lparr>profile_totalPoints = Some 0\<rparr>)"
    and n: "fst (getUserProfile env_timeout state_A) = None"
    and p: "totalPoints (stats state_A) = 100"
    by (simp_all add: getUserProfile_fst sample_defs)
  show ?thesis
    using sync_profile_zero_keeps_points [of "env_profile 0" state_A]
          sync_profile_zero_keeps_points [of env_timeout state_A] z n p
    by (simp add: data_totalPoints_def)
qed

subsection \<open>Check-in failures and points\<close>

lemma checkIn_try_fst:
  "fst (checkIn_try e s) =
     (case fst (generateCheckinToken e
                  (s\<lparr>stats := (stats s)\<lparr>totalCheckins := Suc (totalCheckins (stats s))\<rparr>\<rparr>)) of
        Inl err \<Rightarrow> Inl err
      | Inr tok \<Rightarrow> cloudscraper e (length (sent s)))"
  by (auto simp: checkIn_try_def Let_def
           split: prod.splits sum.splits
           dest!: generateCheckinToken_eqD makeRequest_eqD)

lemma generateCheckinToken_fst:
  "btoa_json e = (\<lambda>p. Inr b) \<Longrightarrow>
     fst (generateCheckinToken e s)
       = Inr (''eyJhbGciOiJSUzI1NiIsInR5cCI6IkpXVCJ9.'' @ b @ ''.signature'')"
  by (simp add: generateCheckinToken_def Date_now_def Let_def)

lemma sample_env_token:
  "fst (generateCheckinToken (sample_env replies) s)
     = Inr (''eyJhbGciOiJSUzI1NiIsInR5cCI6IkpXVCJ9.'' @ ''cGF5bG9hZA=='' @ ''.signature'')"
  by (rule generateCheckinToken_fst) (simp add: sample_env_def)

lemma sample_env_checkIn_try_fst:
  "fst (checkIn_try (sample_env replies) s) = replies (length (sent s))"
  by (simp add: checkIn_try_fst sample_env_token) (simp add: sample_env_def)

lemma checkIn_try_sent:
  "fst (checkIn_try e s) = Inr resp \<Longrightarrow> length (sent (snd (checkIn_try e s))) = Suc (length (sent s))"
  by (auto simp: checkIn_try_def Let_def saveStats_frame
           split: prod.splits sum.splits option.splits if_splits
           dest!: generateCheckinToken_eqD makeRequest_eqD Date_now_eqD)

text \<open>What \<open>checkIn\<close> does when its \<open>try\<close> block raises \<open>err\<close>: it returns null with
  \<open>failedCheckins\<close> one higher and writes the stats at once. If \<open>error.response?.status\<close>
  is 429 or the message contains \<open>rate limit\<close>, one call of \<open>rotateIp\<close> follows on the
  saved state, and with it one request for the active IPs; otherwise nothing follows the
  save.\<close>

lemma checkIn_failure_handling:
  assumes "fst (checkIn_try e s) = Inl err"
  shows "fst (checkIn e s) = None
       \<and> failedCheckins (stats (snd (checkIn e s))) = Suc (failedCheckins (stats s))
       \<and> (let s1 = snd (checkIn_try e s);
               saved = saveStats e
                         (s1\<lparr>stats := (stats s1)\<lparr>failedCheckins := Suc (failedCheckins (stats s1))\<rparr>\<rparr>)
           in snd (checkIn e s)
                = (if err_status err = Some 429 \<or> str_includes (err_message err) ''rate limit''
                   then snd (rotateIp e saved) else saved)
              \<and> sent (snd (checkIn e s))
                  = sent s1 @ (if err_status err = Some 429
                                  \<or> str_includes (err_message err) ''rate limit''
                               then [GET_activeIps] else [])
              \<and> writes saved = Suc (writes s)
              \<and> statsFile (snd (checkIn e s)) = statsFile saved
              \<and> (writeFileSync e (writes s) = Written \<longrightarrow>
                    statsFile saved
                      = Text (Json ((stats s)\<lparr>totalCheckins := Suc (totalCheckins (stats s)),
                                               failedCheckins := Suc (failedCheckins (stats s))\<rparr>))))
       \<and> (\<not> (err_status err = Some 429 \<or> str_includes (err_message err) ''rate limit'') \<longrightarrow>
             config (snd (checkIn e s)) = config s
             \<and> ipRotations (stats (snd (checkIn e s))) = ipRotations (stats s))"
proof -
  obtain s1 where t: "checkIn_try e s = (Inl err, s1)"
    using assms by (cases "checkIn_try e s") simp
  note f = checkIn_try_failure [OF t]
  have c: "checkIn e s = (None, checkIn_catch e err s1)"
    using t by (simp add: checkIn_def)
  show ?thesis
    using f
    by (simp add: c t checkIn_catch_def rate_limited_def Let_def rotateIp_frame saveStats_frame
             split: write_outcome.splits)
qed

text \<open>
  Claim C5. The claim wants one rotation attempt after a check-in that fails with HTTP
  status 429. The error that the transport raises for such a response has the status in
  \<open>statusCode\<close>, and \<open>checkIn\<close> tests \<open>error.response?.status\<close>: on that error \<open>checkIn\<close>
  raises \<open>failedCheckins\<close> from 2 to 3 and saves, but sends nothing after the failed
  request and leaves the configured IP and \<open>ipRotations\<close> as they were. The other half of
  the test works: an error whose message contains \<open>rate limit\<close> is followed by one
  request for the active IPs.
\<close>

theorem checkIn_http_429_no_rotation:
  "fst (checkIn_try env_429 state_A) = Inl (StatusCodeError 429 ''429 - Too Many Requests'')
   \<and> err_statusCode (StatusCodeError 429 ''429 - Too Many Requests'') = Some 429
   \<and> fst (checkIn env_429 state_A) = None
   \<and> failedCheckins (stats state_A) = 2
   \<and> failedCheckins (stats (snd (checkIn env_429 state_A))) = 3
   \<and> statsFile (snd (checkIn env_429 state_A)) = Text (Json (stats_with 6 3 3 100 5 0))
   \<and> sent (snd (checkIn env_429 state_A)) = sent (snd (checkIn_try env_429 state_A))
   \<and> config (snd (checkIn env_429 state_A)) = config state_A
   \<and> ipRotations (stats (snd (checkIn env_429 state_A))) = ipRotations (stats state_A)
   \<and> sent (snd (checkIn env_rate_limit_message state_A))
       = sent (snd (checkIn_try env_rate_limit_message state_A)) @ [GET_activeIps]"
proof -
  let ?e429 = "StatusCodeError 429 ''429 - Too Many Requests''"
  let ?erl = "\<lparr>err_status = None, err_statusCode = None,
               err_message = ''You are being rate limited''\<rparr>"
  have a: "fst (checkIn_try env_429 state_A) = Inl ?e429"
    unfolding env_429_def by (simp add: sample_env_checkIn_try_fst) (simp add: sample_defs)
  have b: "fst (checkIn_try env_rate_limit_message state_A) = Inl ?erl"
    unfolding env_rate_limit_message_def
    by (simp add: sample_env_checkIn_try_fst) (simp add: sample_defs)
  have w: "writeFileSync env_429 (writes state_A) = Written"
    and st: "stats state_A = stats_with 5 3 2 100 5 0"
    by (simp_all add: sample_defs)
  have code: "err_statusCode ?e429 = Some 429"
    and no: "\<not> (err_status ?e429 = Some 429 \<or> str_includes (err_message ?e429) ''rate limit'')"
    and yes: "err_status ?erl = Some 429 \<or> str_includes (err_message ?erl) ''rate limit''"
    by (simp_all add: StatusCodeError_def)
  note r = checkIn_failure_handling [OF a, unfolded Let_def]
  from r have r1: "fst (checkIn env_429 state_A) = None" by blast
  from r have "failedCheckins (stats (snd (checkIn env_429 state_A)))
                 = Suc (failedCheckins (stats state_A))"
    by blast
  with st have r2: "failedCheckins (stats state_A) = 2"
    "failedCheckins (stats (snd (checkIn env_429 state_A))) = 3"
    by (simp_all add: stats_with_def)
  from r w have "statsFile (snd (checkIn env_429 state_A))
      = Text (Json ((stats state_A)\<lparr>totalCheckins := Suc (totalCheckins (stats state_A)),
                                     failedCheckins := Suc (failedCheckins (stats state_A))\<rparr>))"
    by metis
  with st have r3: "statsFile (snd (checkIn env_429 state_A))
      = Text (Json (stats_with 6 3 3 100 5 0))"
    by (simp add: stats_with_def)
  from r have "sent (snd (checkIn env_429 state_A))
      = sent (snd (checkIn_try env_429 state_A))
        @ (if err_status ?e429 = Some 429 \<or> str_includes (err_message ?e429) ''rate limit''
           then [GET_activeIps] else [])"
    by blast
  with no have r4: "sent (snd (checkIn env_429 state_A)) = sent (snd (checkIn_try env_429 state_A))"
    by simp
  from r no have r5: "config (snd (checkIn env_429 state_A)) = config state_A"
    "ipRotations (stats (snd (checkIn env_429 state_A))) = ipRotations (stats state_A)"
    by blast+
  note q = checkIn_failure_handling [OF b, unfolded Let_def]
  from q have "sent (snd (checkIn env_rate_limit_message state_A))
      = sent (snd (checkIn_try env_rate_limit_message state_A))
        @ (if err_status ?erl = Some 429 \<or> str_includes (err_message ?erl) ''rate limit''
           then [GET_activeIps] else [])"
    by blast
  with yes have q1: "sent (snd (checkIn env_rate_limit_message state_A))
       = sent (snd (checkIn_try env_rate_limit_message state_A)) @ [GET_activeIps]"
    by simp
  from a code r1 r2 r3 r4 r5 q1 show ?thesis by blast
qed

lemma checkIn_success:
  assumes "fst (checkIn_try e s) = Inr resp"
  shows "checkIn e s = (resp, snd (checkIn_try e s))"
  using assms by (cases "checkIn_try e s") (simp add: checkIn_def)

lemma checkIn_success_points:
  assumes "fst (checkIn_try e s) = Inr resp"
  shows "totalPoints (stats (snd (checkIn e s)))
           = totalPoints (stats s)
             + (case resp of None \<Rightarrow> 0 | Some r \<Rightarrow> (case points r of None \<Rightarrow> 0 | Some q \<Rightarrow> q))"
    and "writes (snd (checkIn e s)) = Suc (writes s)"
    and "length (sent (snd (checkIn e s))) = Suc (length (sent s))"
proof -
  obtain s1 where t: "checkIn_try e s = (Inr resp, s1)"
    using assms by (cases "checkIn_try e s") simp
  from checkIn_try_success [OF t] checkIn_try_sent [OF assms] t
  show "totalPoints (stats (snd (checkIn e s)))
           = totalPoints (stats s)
             + (case resp of None \<Rightarrow> 0 | Some r \<Rightarrow> (case points r of None \<Rightarrow> 0 | Some q \<Rightarrow> q))"
    and "writes (snd (checkIn e s)) = Suc (writes s)"
    and "length (sent (snd (checkIn e s))) = Suc (length (sent s))"
    by (simp_all add: checkIn_def)
qed

lemma monitorAndMaintain_unfold:
  "monitorAndMaintain e s0
     = saveStats e (sync_profile e (snd (checkIn e (maintain_ip e (fetch_status e s0)))))"
  by (simp add: monitorAndMaintain_def)

text \<open>The state in which the sample cycle reaches its check-in.\<close>

lemma sample_cycle_before_checkIn:
  "length (sent (maintain_ip (env_cycle q p) (fetch_status (env_cycle q p) state_A))) = 3"
  "totalPoints (stats (maintain_ip (env_cycle q p) (fetch_status (env_cycle q p) state_A))) = 100"
  "writes (maintain_ip (env_cycle q p) (fetch_status (env_cycle q p) state_A)) = 0"
proof -
  let ?e = "env_cycle q p"
  let ?s1 = "fetch_status ?e state_A"
  have rot: "ipRotations (stats ?s1) = 0"
    by (simp add: fetch_status_stats getDeviceStatus_fst data_totalUptime_def sample_defs)
  have "fst (hoursSinceLastRotation ?e (snd (getActiveIps ?e ?s1))) = 24"
    using rot by (simp add: hoursSinceLastRotation_fst getActiveIps_frame)
  then show "length (sent (maintain_ip ?e ?s1)) = 3"
    by (simp add: maintain_ip_frame fetch_status_frame) (simp add: sample_defs)
  show "totalPoints (stats (maintain_ip ?e ?s1)) = 100"
    by (simp add: maintain_ip_frame fetch_status_stats getDeviceStatus_fst data_totalUptime_def
                  sample_defs)
  show "writes (maintain_ip ?e ?s1) = 0"
    by (simp add: maintain_ip_frame fetch_status_frame) (simp add: sample_defs)
qed

lemma sample_cycle_checkIn:
  "fst (checkIn_try (env_cycle q p) (maintain_ip (env_cycle q p) (fetch_status (env_cycle q p) state_A)))
     = Inr (Some \<lparr>points = Some q, result_data = None\<rparr>)"
  unfolding env_cycle_def
  by (simp add: sample_env_checkIn_try_fst sample_cycle_before_checkIn [unfolded env_cycle_def])
     (simp add: replies_of_def with_points_def)

lemma sample_cycle_profile:
  "fst (getUserProfile (env_cycle q p)
          (snd (checkIn (env_cycle q p)
                  (maintain_ip (env_cycle q p) (fetch_status (env_cycle q p) state_A)))))
     = Some (UserData \<lparr>profile_totalPoints = Some p\<rparr>)"
  by (simp add: getUserProfile_fst checkIn_success_points(3) [OF sample_cycle_checkIn]
                sample_cycle_before_checkIn)
     (simp add: sample_defs)

text \<open>
  Claim C6 as stated fails: in a cycle whose check-in response carries 50 points, and whose
  profile carries the point total 0, \<open>totalPoints\<close> goes from 100 to 150 and stays there;
  the total 0 of the profile is not written over it.
\<close>

theorem profile_total_zero_counterexample:
  "fst (getUserProfile (env_cycle 50 0)
          (snd (checkIn (env_cycle 50 0)
                  (maintain_ip (env_cycle 50 0) (fetch_status (env_cycle 50 0) state_A)))))
     = Some (UserData \<lparr>profile_totalPoints = Some 0\<rparr>)
   \<and> data_totalPoints (UserData \<lparr>profile_totalPoints = Some 0\<rparr>) = Some 0
   \<and> totalPoints (stats (monitorAndMaintain (env_cycle 50 0) state_A)) = 150
   \<and> totalPoints (stats (monitorAndMaintain (env_cycle 50 0) state_A)) \<noteq> 0"
  by (simp add: monitorAndMaintain_unfold saveStats_frame sync_profile_stats sample_cycle_profile
                data_totalPoints_def checkIn_success_points(1) [OF sample_cycle_checkIn]
                sample_cycle_before_checkIn)

text \<open>
  Claim C6, amended. In a monitoring cycle whose check-in succeeds, the points of the
  response (if it has any) are added to \<open>totalPoints\<close>; and if the profile then fetched
  carries a non-zero point total \<open>p\<close>, \<open>totalPoints\<close> is \<open>p\<close> at the end of the cycle, and
  the stats file holds the final stats if the final write succeeds.
\<close>

theorem cycle_points_delta_then_overwrite:
  assumes "s = maintain_ip e (fetch_status e start)"
    and "fst (checkIn_try e s) = Inr resp"
    and "fst (getUserProfile e (snd (checkIn e s))) = Some d"
    and "data_totalPoints d = Some p"
    and "p \<noteq> 0"
  shows "totalPoints (stats (snd (checkIn e s)))
           = totalPoints (stats s)
             + (case resp of None \<Rightarrow> 0 | Some r \<Rightarrow> (case points r of None \<Rightarrow> 0 | Some q \<Rightarrow> q))
       \<and> totalPoints (stats (monitorAndMaintain e start)) = p
       \<and> (writeFileSync e (Suc (writes s)) = Written \<longrightarrow>
            statsFile (monitorAndMaintain e start) = Text (Json (stats (monitorAndMaintain e start))))"
  using assms(1,3-5) checkIn_success_points(1,2) [OF assms(2)]
  by (simp add: monitorAndMaintain_unfold sync_profile_stats sync_profile_frame saveStats_frame)

theorem cycle_points_delta_then_overwrite_witness:
  "fst (checkIn_try (env_cycle 50 500)
          (maintain_ip (env_cycle 50 500) (fetch_status (env_cycle 50 500) state_A)))
     = Inr (Some \<lparr>points = Some 50, result_data = None\<rparr>)
   \<and> fst (getUserProfile (env_cycle 50 500)
          (snd (checkIn (env_cycle 50 500)
                  (maintain_ip (env_cycle 50 500) (fetch_status (env_cycle 50 500) state_A)))))
     = Some (UserData \<lparr>profile_totalPoints = Some 500\<rparr>)
   \<and> totalPoints (stats (maintain_ip (env_cycle 50 500) (fetch_status (env_cycle 50 500) state_A)))
     = 100
   \<and> totalPoints (stats (snd (checkIn (env_cycle 50 500)
        (maintain_ip (env_cycle 50 500) (fetch_status (env_cycle 50 500) state_A))))) = 150
   \<and> totalPoints (stats (monitorAndMaintain (env_cycle 50 500) state_A)) = 500
   \<and> statsFile (monitorAndMaintain (env_cycle 50 500) state_A)
       = Text (Json (stats (monitorAndMaintain (env_cycle 50 500) state_A)))"
proof -
  let ?e = "env_cycle 50 500"
  let ?s = "maintain_ip ?e (fetch_status ?e state_A)"
  have d: "data_totalPoints (UserData \<lparr>profile_totalPoints = Some 500\<rparr>) = Some 500"
    by (simp add: data_totalPoints_def)
  have n: "(500 :: int) \<noteq> 0" by simp
  have w: "writeFileSync ?e (Suc (writes ?s)) = Written"
    by (simp add: sample_defs)
  note c = cycle_points_delta_then_overwrite
             [where start = state_A, OF refl sample_cycle_checkIn sample_cycle_profile d n]
  from c have "totalPoints (stats (snd (checkIn ?e ?s))) = totalPoints (stats ?s) + 50"
    by simp
  then have c1: "totalPoints (stats (snd (checkIn ?e ?s))) = 150"
    by (simp add: sample_cycle_before_checkIn)
  from c have c2: "totalPoints (stats (monitorAndMaintain ?e state_A)) = 500" by blast
  from c w have c3: "statsFile (monitorAndMaintain ?e state_A)
       = Text (Json (stats (monitorAndMaintain ?e state_A)))"
    by blast
  from c1 c2 c3 sample_cycle_checkIn [of 50 500] sample_cycle_profile [of 50 500]
       sample_cycle_before_checkIn(2) [of 50 500]
  show ?thesis by blast
qed

text \<open>
  Claim C7. \<open>loadStats\<close> always returns normally. When the stats file is missing, cannot
  be read, or holds text that \<open>JSON.parse\<close> rejects, the stats are the zero record: all
  counters 0 and \<open>lastCheckin\<close> absent. (A file that parses is taken as it is.)
\<close>

theorem loadStats_never_raises:
  "(\<exists>s'. loadStats s = Inr s')
   \<and> (statsFile s = Missing \<or> statsFile s = Unreadable \<or> statsFile s = Text Garbage \<longrightarrow>
        loadStats s
          = Inr (s\<lparr>stats := \<lparr>totalCheckins = 0, successfulCheckins = 0, failedCheckins = 0,
                              lastCheckin = None, totalPoints = 0, uptimeHours = 0,
                              ipRotations = 0\<rparr>\<rparr>))
   \<and> (\<forall>st. statsFile s = Text (Json st) \<longrightarrow> loadStats s = Inr (s\<lparr>stats := st\<rparr>))"
  by (auto simp: loadStats_def loadStats_try_def existsSync_def readFileSync_def JSON_parse_def
                 zero_stats_def
           split: sum.splits stats_file.splits contents.splits)

theorem loadStats_never_raises_witness:
  "statsFile (state_A\<lparr>statsFile := Text Garbage\<rparr>) = Text Garbage
   \<and> loadStats (state_A\<lparr>statsFile := Text Garbage\<rparr>)
       = Inr (state_A\<lparr>statsFile := Text Garbage,
                      stats := \<lparr>totalCheckins = 0, successfulCheckins = 0, failedCheckins = 0,
                                lastCheckin = None, totalPoints = 0, uptimeHours = 0,
                                ipRotations = 0\<rparr>\<rparr>)
   \<and> statsFile state_A = Missing
   \<and> loadStats state_A
       = Inr (state_A\<lparr>stats := \<lparr>totalCheckins = 0, successfulCheckins = 0, failedCheckins = 0,
                                lastCheckin = None, totalPoints = 0, uptimeHours = 0,
                                ipRotations = 0\<rparr>\<rparr>)"
proof -
  have m: "statsFile state_A = Missing" by (simp add: sample_defs)
  from loadStats_never_raises [of "state_A\<lparr>statsFile := Text Garbage\<rparr>"]
       loadStats_never_raises [of state_A] m
  show ?thesis by simp
qed

end
